theory Spec2Isabelle
  imports Complex_Main "HOL-Library.AList"
begin

section \<open>Python values and exceptions\<close>

text \<open>
  The classifier of \<^verbatim>\<open>address_validate.py\<close> reads whatever \<^verbatim>\<open>response.json()\<close> gave it:
  a decoded JSON document. Objects are association lists (lookup takes the first
  binding of a key), numbers are split into \<^verbatim>\<open>int\<close> and \<^verbatim>\<open>float\<close> as Python's decoder
  splits them. A float is held as the real number it denotes; the program only ever
  tests a float for truth and asks for its type name. Text is a list of bytes (UTF-8):
  the program only concatenates strings and compares them.
\<close>

datatype json =
    JNull
  | JBool bool
  | JInt int
  | JFloat real
  | JStr string
  | JList "json list"
  | JDict "(string \<times> json) list"

type_synonym pydict = "(string \<times> json) list"

datatype py_exn =
    AttributeError string string
  | TypeError string
  | KeyError string
  | ValueError string
  | OtherError string

definition quoted :: "string \<Rightarrow> string" where
  "quoted s = CHR 0x27 # s @ [CHR 0x27]"

fun type_name :: "json \<Rightarrow> string" where
  "type_name JNull = ''NoneType''"
| "type_name (JBool b) = ''bool''"
| "type_name (JInt i) = ''int''"
| "type_name (JFloat x) = ''float''"
| "type_name (JStr s) = ''str''"
| "type_name (JList xs) = ''list''"
| "type_name (JDict kvs) = ''dict''"

text \<open>\<^verbatim>\<open>str(e)\<close> of an exception (the wording of CPython 3 up to 3.13).\<close>

fun exn_message :: "py_exn \<Rightarrow> string" where
  "exn_message (AttributeError ty attr) =
     quoted ty @ '' object has no attribute '' @ quoted attr"
| "exn_message (TypeError msg) = msg"
| "exn_message (KeyError k) = quoted k"
| "exn_message (ValueError msg) = msg"
| "exn_message (OtherError msg) = msg"

text \<open>Truth value testing: \<^verbatim>\<open>None\<close>, \<^verbatim>\<open>False\<close>, zero and empty containers are false.\<close>

fun truthy :: "json \<Rightarrow> bool" where
  "truthy JNull = False"
| "truthy (JBool b) = b"
| "truthy (JInt i) = (i \<noteq> 0)"
| "truthy (JFloat x) = (x \<noteq> 0)"
| "truthy (JStr s) = (s \<noteq> [])"
| "truthy (JList xs) = (xs \<noteq> [])"
| "truthy (JDict kvs) = (kvs \<noteq> [])"

definition py_and :: "json \<Rightarrow> json \<Rightarrow> json" where
  "py_and x y = (if truthy x then y else x)"

definition py_not :: "json \<Rightarrow> json" where
  "py_not x = JBool (\<not> truthy x)"

text \<open>Sequencing of steps that may raise: the first exception ends the block.\<close>

definition bind :: "py_exn + 'a \<Rightarrow> ('a \<Rightarrow> py_exn + 'b) \<Rightarrow> py_exn + 'b" where
  "bind m f = (case m of Inl e \<Rightarrow> Inl e | Inr x \<Rightarrow> f x)"

text \<open>\<^verbatim>\<open>obj.get(key, default)\<close>: only a dict has the method.\<close>

definition dget :: "pydict \<Rightarrow> string \<Rightarrow> json \<Rightarrow> json" where
  "dget kvs k d = (case map_of kvs k of None \<Rightarrow> d | Some v \<Rightarrow> v)"

fun py_get :: "json \<Rightarrow> string \<Rightarrow> json \<Rightarrow> py_exn + json" where
  "py_get (JDict kvs) k d = Inr (dget kvs k d)"
| "py_get v k d = Inl (AttributeError (type_name v) ''get'')"

fun contains_sub :: "string \<Rightarrow> string \<Rightarrow> bool" where
  "contains_sub s [] = (s = [])"
| "contains_sub s (c # cs) = (take (length s) (c # cs) = s \<or> contains_sub s cs)"

text \<open>
  \<^verbatim>\<open>key in obj\<close> for a string key: a key of a dict, an element of a list, a substring
  of a string; anything else is not a container.
\<close>

fun py_contains :: "string \<Rightarrow> json \<Rightarrow> py_exn + bool" where
  "py_contains k (JDict kvs) = Inr (map_of kvs k \<noteq> None)"
| "py_contains k (JList xs) = Inr (JStr k \<in> set xs)"
| "py_contains k (JStr s) = Inr (contains_sub k s)"
| "py_contains k v =
     Inl (TypeError (''argument of type '' @ quoted (type_name v) @ '' is not iterable''))"

text \<open>\<^verbatim>\<open>obj[key]\<close> for a string key.\<close>

fun py_subscript :: "json \<Rightarrow> string \<Rightarrow> py_exn + json" where
  "py_subscript (JDict kvs) k =
     (case map_of kvs k of None \<Rightarrow> Inl (KeyError k) | Some v \<Rightarrow> Inr v)"
| "py_subscript (JList xs) k =
     Inl (TypeError ''list indices must be integers or slices, not str'')"
| "py_subscript (JStr s) k =
     Inl (TypeError (''string indices must be integers, not '' @ quoted ''str''))"
| "py_subscript v k =
     Inl (TypeError (quoted (type_name v) @ '' object is not subscriptable''))"

text \<open>
  Hashing, as a set or dict lookup does it first: lists and dicts are unhashable.
\<close>

fun py_hashable :: "json \<Rightarrow> py_exn + unit" where
  "py_hashable (JList xs) = Inl (TypeError (''unhashable type: '' @ quoted ''list''))"
| "py_hashable (JDict kvs) = Inl (TypeError (''unhashable type: '' @ quoted ''dict''))"
| "py_hashable v = Inr ()"

text \<open>\<^verbatim>\<open>v in {s1, s2, ...}\<close> for a set of string literals.\<close>

definition py_in_strset :: "json \<Rightarrow> string list \<Rightarrow> py_exn + bool" where
  "py_in_strset v ss = bind (py_hashable v) (\<lambda>_. Inr (v \<in> set (map JStr ss)))"

text \<open>\<^verbatim>\<open>v in [s1, s2, ...]\<close> for a list of string literals: equality only, no hashing.\<close>

definition py_in_strlist :: "json \<Rightarrow> string list \<Rightarrow> bool" where
  "py_in_strlist v ss = (v \<in> set (map JStr ss))"

text \<open>
  \<^verbatim>\<open>str(v)\<close>, as an f-string formats a value. A string is itself; the text Python
  prints for any other value (the \<^verbatim>\<open>repr\<close> of numbers and containers) belongs to
  the interpreter, not to this program, and is the parameter \<open>str_other\<close>.
\<close>

definition py_str :: "(json \<Rightarrow> string) \<Rightarrow> json \<Rightarrow> string" where
  "py_str str_other v = (case v of JStr s \<Rightarrow> s | _ \<Rightarrow> str_other v)"

section \<open>The classifier\<close>

subsection \<open>\<^verbatim>\<open>_map_dpv_confirmation\<close>\<close>

definition dpv_mapping :: "(string \<times> string) list" where
  "dpv_mapping =
    [(''Y'', ''Address confirmed (Primary and secondary if present).''),
     (''N'', ''Address not confirmed (No primary or secondary match).''),
     (''D'', ''Primary confirmed, but secondary information is missing.''),
     (''S'', ''Primary confirmed, secondary information exists but was not provided in the input.''),
     (''C'', ''Address confirmed, but it is a Commercial Mail Receiving Agency (CMRA).''),
     (''B'', ''Primary confirmed, but it is a PO Box or equivalent.'')]"

text \<open>\<^verbatim>\<open>mapping.get(code, "Unknown DPV Confirmation Code")\<close>: the key is hashed first.\<close>

definition map_dpv_confirmation :: "json \<Rightarrow> py_exn + json" where
  "map_dpv_confirmation code =
     bind (py_hashable code) (\<lambda>_.
       Inr (JStr (case code of
                    JStr c \<Rightarrow> (case map_of dpv_mapping c of
                                 None \<Rightarrow> ''Unknown DPV Confirmation Code''
                               | Some d \<Rightarrow> d)
                  | _ \<Rightarrow> ''Unknown DPV Confirmation Code'')))"

subsection \<open>\<^verbatim>\<open>parse_validation_result\<close>\<close>

text \<open>The \<^verbatim>\<open>if\<close>/\<^verbatim>\<open>elif\<close> chain over the granularity (lines 141 to 164).\<close>

definition granularity_status :: "json \<Rightarrow> string \<times> bool" where
  "granularity_status validation_granularity =
    (if validation_granularity = JStr ''SUB_PREMISE'' then
       (''Highly Mailable Address (Validated to sub-unit)'', True)
     else if validation_granularity = JStr ''PREMISE'' then
       (''Standard Mailable Address (Validated to building)'', True)
     else if validation_granularity = JStr ''STREET'' then
       (''Partial Address (Street-level only, may not be reliably mailable)'', True)
     else if validation_granularity = JStr ''LOCALITY'' then
       (''Non-Mailable Address (Only city-level validated)'', False)
     else if validation_granularity = JStr ''REGION'' then
       (''Non-Mailable Address (Only region/state validated)'', False)
     else if validation_granularity = JStr ''COUNTRY'' then
       (''Non-Mailable Address (Only country validated)'', False)
     else if validation_granularity = JStr ''OTHER'' then
       (''Non-Mailable Address (Unknown or unvalidated)'', False)
     else
       (''Non-Mailable Address (Unknown validation granularity)'', False))"

text \<open>
  The note of line 168. Its second character is an em dash (U+2014), three bytes in
  UTF-8.
\<close>

definition inferred_note :: string where
  "inferred_note =
     '' '' @ [CHR 0xE2, CHR 0x80, CHR 0x94] @ '' Note: Some components were inferred.''"

text \<open>The result dict of both error returns (lines 121 to 129 and 222 to 230).\<close>

definition error_result :: "string \<Rightarrow> string \<Rightarrow> pydict" where
  "error_result original_address status =
    [(''original_address'', JStr original_address),
     (''validated_address'', JStr original_address),
     (''is_valid'', JBool False),
     (''validation_status'', JStr status),
     (''lat'', JNull),
     (''lng'', JNull),
     (''usps_data'', JNull)]"

text \<open>The body of the \<^verbatim>\<open>try\<close> block (lines 132 to 219), statement by statement.\<close>

definition try_body :: "json \<Rightarrow> string \<Rightarrow> string \<Rightarrow> bool \<Rightarrow> py_exn + pydict" where
  "try_body result original_address region_code enable_usps_cass =
    bind (py_get result ''result'' (JDict [])) (\<lambda>validation_result.
    bind (py_get validation_result ''verdict'' (JDict [])) (\<lambda>verdict.
    bind (py_get validation_result ''address'' (JDict [])) (\<lambda>address_obj.
    bind (py_get verdict ''validationGranularity'' (JStr ''UNKNOWN'')) (\<lambda>validation_granularity.
    bind (py_get verdict ''addressComplete'' (JBool False)) (\<lambda>address_complete.
    bind (py_get verdict ''hasInferredComponents'' (JBool False)) (\<lambda>has_inferred.
    case granularity_status validation_granularity of (status0, is_valid) \<Rightarrow>
    bind (if truthy has_inferred
          then bind (py_in_strset validation_granularity [''SUB_PREMISE'', ''PREMISE'', ''STREET''])
                 (\<lambda>b. Inr (if b then status0 @ inferred_note else status0))
          else Inr status0) (\<lambda>status.
    bind (py_get address_obj ''formattedAddress'' (JStr original_address)) (\<lambda>formatted_address.
    bind (py_get validation_result ''geocode'' (JDict [])) (\<lambda>geocode.
    bind (py_get geocode ''location'' (JDict [])) (\<lambda>location.
    bind (py_get location ''lat'' JNull) (\<lambda>lat.
    bind (py_get location ''lng'' JNull) (\<lambda>lng.
    bind (py_get validation_result ''uspsData'' (JDict [])) (\<lambda>usps_data.
    bind (py_get validation_result ''metadata'' (JDict [])) (\<lambda>metadata.
    bind (if region_code = ''US'' then py_get metadata ''poBox'' (JBool False)
          else Inr (JBool False)) (\<lambda>is_po_box.
    bind (if region_code = ''US''
          then bind (py_get usps_data ''dpvConfirmation'' JNull)
                 (\<lambda>c. Inr (JBool (c = JStr ''Y'')))
          else Inr (JBool False)) (\<lambda>is_dpv_confirmed.
    bind (py_get usps_data ''dpvConfirmation'' (JStr ''N/A'')) (\<lambda>dpv_confirmation.
    bind (map_dpv_confirmation dpv_confirmation) (\<lambda>dpv_confirmation_description.
    bind (py_get verdict ''validationGranularity'' JNull) (\<lambda>g.
    bind (py_get verdict ''addressComplete'' JNull) (\<lambda>c1.
    bind (py_get verdict ''hasInferredComponents'' JNull) (\<lambda>c2.
    bind (py_get verdict ''hasReplacedComponents'' JNull) (\<lambda>c3.
    bind (py_get verdict ''unconfirmedComponentTypes'' JNull) (\<lambda>c4.
    bind (py_get verdict ''missingComponentTypes'' JNull) (\<lambda>c5.
    bind (py_get verdict ''unresolvedTokens'' JNull) (\<lambda>c6.
    bind (Inr (py_and (JBool (py_in_strlist g [''PREMISE'', ''SUB_PREMISE'']))
              (py_and c1
              (py_and (py_not c2)
              (py_and (py_not c3)
              (py_and (py_not c4)
              (py_and (py_not c5) (py_not c6)))))))) (\<lambda>is_confirmed0.
    bind (if region_code = ''US'' \<and> enable_usps_cass
          then (if truthy is_confirmed0
                then bind (py_get usps_data ''dpvConfirmation'' JNull)
                       (\<lambda>c. Inr (JBool (c = JStr ''Y'')))
                else Inr is_confirmed0)
          else Inr is_confirmed0) (\<lambda>is_confirmed.
    bind (py_get usps_data ''dpvVacant'' (JBool False)) (\<lambda>is_vacant.
    bind (py_get usps_data ''dpvNoStat'' (JBool False)) (\<lambda>is_no_stat.
    bind (py_get usps_data ''dpvCmra'' (JBool False)) (\<lambda>is_cmra.
    bind (py_get usps_data ''undeliverable'' (JBool False)) (\<lambda>is_undeliverable.
    Inr [(''original_address'', JStr original_address),
         (''validated_address'', formatted_address),
         (''is_valid'', JBool is_valid),
         (''validation_status'', JStr status),
         (''is_po_box'', is_po_box),
         (''is_dpv_confirmed'', is_dpv_confirmed),
         (''is_confirmed'', is_confirmed),
         (''is_vacant'', is_vacant),
         (''is_no_stat'', is_no_stat),
         (''is_cmra'', is_cmra),
         (''is_undeliverable'', is_undeliverable),
         (''dpv_confirmation_description'', dpv_confirmation_description)]
    )))))))))))))))))))))))))))))))"

text \<open>
  The function itself. The test for the \<^verbatim>\<open>error\<close> key and the read of its value come
  before the \<^verbatim>\<open>try\<close>, so what they raise leaves the function (\<open>Inl\<close>); what the body
  raises is caught by \<^verbatim>\<open>except Exception\<close>.
\<close>

definition parse_validation_result ::
    "(json \<Rightarrow> string) \<Rightarrow> json \<Rightarrow> string \<Rightarrow> string \<Rightarrow> bool \<Rightarrow> py_exn + pydict" where
  "parse_validation_result str_other result original_address region_code enable_usps_cass =
    bind (py_contains ''error'' result) (\<lambda>has_error.
      if has_error then
        bind (py_subscript result ''error'') (\<lambda>err.
          Inr (error_result original_address (''API Error: '' @ py_str str_other err)))
      else
        (case try_body result original_address region_code enable_usps_cass of
           Inr out \<Rightarrow> Inr out
         | Inl e \<Rightarrow> Inr (error_result original_address (''Parse Error: '' @ exn_message e))))"

text \<open>The defaults of the signature on line 116, used when a caller leaves them out.\<close>

definition default_region_code :: string where
  "default_region_code = ''US''"

definition default_enable_usps_cass :: bool where
  "default_enable_usps_cass = True"

section \<open>The request builder\<close>

text \<open>
  A geocode result as the Geocoding API types it: the component fields are strings and
  lists of strings. A key may be missing (\<open>None\<close>): \<^verbatim>\<open>.get\<close> then takes its default
  and a subscript raises \<^verbatim>\<open>KeyError\<close>.
\<close>

record component =
  types :: "string list option"
  long_name :: "string option"
  short_name :: "string option"

record geocode_result =
  address_components :: "component list option"
  formatted_address :: "string option"

text \<open>The dict \<^verbatim>\<open>components\<close> that the builder fills, one field per key it may set.\<close>

record components =
  locality :: "string option"
  administrativeArea :: "string option"
  regionCode :: "string option"
  postalCode :: "string option"
  addressLines :: "string list option"

record validation_request =
  address :: components

definition empty_components :: components where
  "empty_components =
     \<lparr>locality = None, administrativeArea = None, regionCode = None,
      postalCode = None, addressLines = None\<rparr>"

definition subscript_key :: "string \<Rightarrow> 'a option \<Rightarrow> py_exn + 'a" where
  "subscript_key k field = (case field of None \<Rightarrow> Inl (KeyError k) | Some x \<Rightarrow> Inr x)"

text \<open>One turn of the loop of lines 37 to 49 on the pair (components, poi_names).\<close>

definition scan_component ::
    "component \<Rightarrow> components \<times> string list \<Rightarrow> py_exn + components \<times> string list" where
  "scan_component cmpt st =
    (case st of (comps, poi_names) \<Rightarrow>
      bind (subscript_key ''types'' (types cmpt)) (\<lambda>tys.
        if list_ex (\<lambda>t. t \<in> set tys) [''point_of_interest'', ''establishment'', ''university'']
        then bind (subscript_key ''long_name'' (long_name cmpt)) (\<lambda>n.
               Inr (comps, if n \<notin> set poi_names then poi_names @ [n] else poi_names))
        else if ''locality'' \<in> set tys
        then bind (subscript_key ''long_name'' (long_name cmpt)) (\<lambda>n.
               Inr (comps\<lparr>locality := Some n\<rparr>, poi_names))
        else if ''administrative_area_level_1'' \<in> set tys
        then bind (subscript_key ''short_name'' (short_name cmpt)) (\<lambda>n.
               Inr (comps\<lparr>administrativeArea := Some n\<rparr>, poi_names))
        else if ''country'' \<in> set tys
        then bind (subscript_key ''short_name'' (short_name cmpt)) (\<lambda>n.
               Inr (comps\<lparr>regionCode := Some n\<rparr>, poi_names))
        else if ''postal_code'' \<in> set tys
        then bind (subscript_key ''long_name'' (long_name cmpt)) (\<lambda>n.
               Inr (comps\<lparr>postalCode := Some n\<rparr>, poi_names))
        else Inr (comps, poi_names)))"

fun scan_components ::
    "component list \<Rightarrow> components \<times> string list \<Rightarrow> py_exn + components \<times> string list" where
  "scan_components [] st = Inr st"
| "scan_components (cmpt # rest) st = bind (scan_component cmpt st) (scan_components rest)"

definition build_validation_request ::
    "geocode_result \<Rightarrow> string \<Rightarrow> py_exn + validation_request" where
  "build_validation_request geocode_result original_input =
    (let comps_in = (case address_components geocode_result of None \<Rightarrow> [] | Some cs \<Rightarrow> cs);
         formatted = (case formatted_address geocode_result of None \<Rightarrow> [] | Some s \<Rightarrow> s)
     in bind (scan_components comps_in (empty_components, [])) (\<lambda>(comps, poi_names).
          let address_lines = foldl (\<lambda>acc name. acc @ [name]) [] poi_names;
              address_lines = (if original_input \<notin> set address_lines
                               then original_input # address_lines else address_lines);
              address_lines = (if formatted \<notin> set address_lines
                               then address_lines @ [formatted] else address_lines);
              comps = (case regionCode comps of
                         None \<Rightarrow> comps\<lparr>regionCode := Some ''US''\<rparr>
                       | Some r \<Rightarrow> comps);
              comps = comps\<lparr>addressLines := Some address_lines\<rparr>
          in Inr \<lparr>address = comps\<rparr>))"

section \<open>The network clients and the batch driver\<close>

text \<open>
  The two HTTP calls are the outside world: each is a function of a world state \<open>'w\<close>
  that answers and moves the world on. The geocoding call answers with the list
  \<^verbatim>\<open>data['results']\<close> or with the exception that \<^verbatim>\<open>requests.get\<close>,
  \<^verbatim>\<open>raise_for_status\<close>, \<^verbatim>\<open>response.json\<close> or the subscript raised. The validation call
  answers with the decoded body, with a \<^verbatim>\<open>requests.exceptions.RequestException\<close> (its
  \<^verbatim>\<open>str\<close>), or with an exception of another class.
\<close>

datatype http_outcome =
    Response json
  | RequestException string
  | Raised py_exn

record 'w network =
  geocode_get :: "'w \<Rightarrow> string \<Rightarrow> string \<Rightarrow> (py_exn + geocode_result list) \<times> 'w"
  validate_post :: "'w \<Rightarrow> validation_request \<Rightarrow> string \<Rightarrow> http_outcome \<times> 'w"

definition geocode_address ::
    "'w network \<Rightarrow> string \<Rightarrow> string \<Rightarrow> 'w \<Rightarrow> (py_exn + geocode_result) \<times> 'w" where
  "geocode_address net address_text api_key w =
    (case geocode_get net w address_text api_key of
       (Inl e, w') \<Rightarrow> (Inl e, w')
     | (Inr [], w') \<Rightarrow> (Inl (ValueError ''No results found for address''), w')
     | (Inr (result # _), w') \<Rightarrow> (Inr result, w'))"

text \<open>
  \<^verbatim>\<open>validate_address_google\<close> (lines 71 to 102). The dict \<^verbatim>\<open>payload\<close> of lines 86 to
  91, the only place where \<^verbatim>\<open>enable_cass\<close> is read, is built and never sent: the
  request posted is \<^verbatim>\<open>validation_request\<close>. \<^verbatim>\<open>region_code\<close> is not read at all.
\<close>

definition validate_address_google ::
    "'w network \<Rightarrow> string \<Rightarrow> string \<Rightarrow> bool \<Rightarrow> string \<Rightarrow> 'w \<Rightarrow> (py_exn + json) \<times> 'w" where
  "validate_address_google net addr api_key enable_cass region_code w =
    (case geocode_address net addr api_key w of
       (Inl e, w1) \<Rightarrow> (Inl e, w1)
     | (Inr geocode_result, w1) \<Rightarrow>
        (case build_validation_request geocode_result addr of
           Inl e \<Rightarrow> (Inl e, w1)
         | Inr validation_request \<Rightarrow>
            (let payload = JDict [(''address'', JDict [(''addressLines'', JList [JStr addr])]),
                                  (''enableUspsCass'', JBool enable_cass)]
             in case validate_post net w1 validation_request api_key of
                  (Response body, w2) \<Rightarrow> (Inr body, w2)
                | (RequestException msg, w2) \<Rightarrow> (Inr (JDict [(''error'', JStr msg)]), w2)
                | (Raised e, w2) \<Rightarrow> (Inl e, w2))))"

text \<open>\<^verbatim>\<open>d.update(e)\<close>: a key already in \<open>d\<close> keeps its place, a new key goes last.\<close>

definition dict_update :: "pydict \<Rightarrow> pydict \<Rightarrow> pydict" where
  "dict_update d e = foldl (\<lambda>acc (k, v). AList.update k v acc) d e"

text \<open>
  One turn of the loop of \<^verbatim>\<open>process_addresses\<close> (lines 249 to 263) on a row of the
  dataframe, a dict from column names to cells. The progress bar, the streamed
  messages and the sleep are display only and are left out. The call on line 258 gives
  \<^verbatim>\<open>parse_validation_result\<close> two arguments, so the other two are the defaults.
\<close>

definition process_row ::
    "(json \<Rightarrow> string) \<Rightarrow> 'w network \<Rightarrow> string \<Rightarrow> string \<Rightarrow> bool \<Rightarrow> pydict \<Rightarrow> 'w
      \<Rightarrow> (py_exn + pydict) \<times> 'w" where
  "process_row str_other net address_column api_key enable_cass row w =
    (case py_subscript (JDict row) address_column of
       Inl e \<Rightarrow> (Inl e, w)
     | Inr cell \<Rightarrow>
        (let addr = py_str str_other cell
         in case validate_address_google net addr api_key enable_cass ''US'' w of
              (Inl e, w') \<Rightarrow> (Inl e, w')
            | (Inr validation_result, w') \<Rightarrow>
               (case parse_validation_result str_other validation_result addr
                       default_region_code default_enable_usps_cass of
                  Inl e \<Rightarrow> (Inl e, w')
                | Inr parsed_result \<Rightarrow> (Inr (dict_update row parsed_result), w'))))"

fun process_loop ::
    "(json \<Rightarrow> string) \<Rightarrow> 'w network \<Rightarrow> string \<Rightarrow> string \<Rightarrow> bool \<Rightarrow> pydict list
      \<Rightarrow> pydict list \<Rightarrow> 'w \<Rightarrow> (py_exn + pydict list) \<times> 'w" where
  "process_loop str_other net address_column api_key enable_cass [] results w =
     (Inr results, w)"
| "process_loop str_other net address_column api_key enable_cass (row # rows) results w =
     (case process_row str_other net address_column api_key enable_cass row w of
        (Inl e, w') \<Rightarrow> (Inl e, w')
      | (Inr result_row, w') \<Rightarrow>
          process_loop str_other net address_column api_key enable_cass rows
            (results @ [result_row]) w')"

definition process_addresses ::
    "(json \<Rightarrow> string) \<Rightarrow> 'w network \<Rightarrow> pydict list \<Rightarrow> string \<Rightarrow> string \<Rightarrow> bool \<Rightarrow> 'w
      \<Rightarrow> (py_exn + pydict list) \<times> 'w" where
  "process_addresses str_other net df address_column api_key enable_cass w =
     process_loop str_other net address_column api_key enable_cass df [] w"

section \<open>Reading a field of a response\<close>

text \<open>
  The value found by following keys through nested objects, if every step is there.
  The theorems name the fields of a response with it.
\<close>

fun path_get :: "json \<Rightarrow> string list \<Rightarrow> json option" where
  "path_get v [] = Some v"
| "path_get (JDict kvs) (k # ks) =
     (case map_of kvs k of None \<Rightarrow> None | Some v \<Rightarrow> path_get v ks)"
| "path_get v (k # ks) = None"

definition field_or :: "json \<Rightarrow> json \<Rightarrow> string list \<Rightarrow> json" where
  "field_or d response path = (case path_get response path of None \<Rightarrow> d | Some v \<Rightarrow> v)"

text \<open>
  The value under a key of the dict that a call returned: \<open>None\<close> when the call raised
  or the dict has no such key.
\<close>

definition returned :: "py_exn + pydict \<Rightarrow> string \<Rightarrow> json option" where
  "returned r k = (case r of Inl e \<Rightarrow> None | Inr out \<Rightarrow> map_of out k)"

text \<open>
  The examples below format no value other than a string, so any function serves
  there as \<open>str_other\<close>; they use this one.
\<close>

definition no_repr :: "json \<Rightarrow> string" where
  "no_repr v = []"

text \<open>
  For the request builder: the names the loop meets, in order, on components typed as
  a point of interest, an establishment or a university; and a list cut down to the
  first occurrence of each element.
\<close>

definition is_poi :: "component \<Rightarrow> bool" where
  "is_poi cmpt =
     (case types cmpt of
        None \<Rightarrow> False
      | Some tys \<Rightarrow> list_ex (\<lambda>t. t \<in> set tys)
                     [''point_of_interest'', ''establishment'', ''university''])"

definition poi_long_names :: "component list \<Rightarrow> string list" where
  "poi_long_names cs = List.map_filter (\<lambda>c. if is_poi c then long_name c else None) cs"

definition first_occurrences :: "'a list \<Rightarrow> 'a list" where
  "first_occurrences xs = rev (remdups (rev xs))"

text \<open>The fields of a response that the classifier reads, with its defaults.\<close>

definition verdict_field :: "json \<Rightarrow> string \<Rightarrow> json" where
  "verdict_field response k = field_or JNull response [''result'', ''verdict'', k]"

definition usps_field :: "json \<Rightarrow> string \<Rightarrow> json" where
  "usps_field response k = field_or JNull response [''result'', ''uspsData'', k]"

definition granularity :: "json \<Rightarrow> json" where
  "granularity response =
     field_or (JStr ''UNKNOWN'') response [''result'', ''verdict'', ''validationGranularity'']"

definition has_inferred :: "json \<Rightarrow> bool" where
  "has_inferred response =
     truthy (field_or (JBool False) response [''result'', ''verdict'', ''hasInferredComponents''])"

definition dpv_code :: "json \<Rightarrow> json" where
  "dpv_code response =
     field_or (JStr ''N/A'') response [''result'', ''uspsData'', ''dpvConfirmation'']"

text \<open>
  The dict that the \<^verbatim>\<open>try\<close> block returns when none of its steps raises, written
  over the fields of the response (lemma \<open>try_body_out\<close> below).
\<close>

definition main_out :: "json \<Rightarrow> string \<Rightarrow> string \<Rightarrow> bool \<Rightarrow> pydict" where
  "main_out result orig region cass =
    (let g = granularity result;
         vf = verdict_field result;
         uf = (\<lambda>k d. field_or d result [''result'', ''uspsData'', k]);
         ic0 = py_and (JBool (py_in_strlist (vf ''validationGranularity'') [''PREMISE'', ''SUB_PREMISE'']))
              (py_and (vf ''addressComplete'')
              (py_and (py_not (vf ''hasInferredComponents''))
              (py_and (py_not (vf ''hasReplacedComponents''))
              (py_and (py_not (vf ''unconfirmedComponentTypes''))
              (py_and (py_not (vf ''missingComponentTypes''))
                      (py_not (vf ''unresolvedTokens'')))))))
     in
     [(''original_address'', JStr orig),
      (''validated_address'',
         field_or (JStr orig) result [''result'', ''address'', ''formattedAddress'']),
      (''is_valid'', JBool (snd (granularity_status g))),
      (''validation_status'', JStr
         (if has_inferred result \<and> g \<in> set (map JStr [''SUB_PREMISE'', ''PREMISE'', ''STREET''])
          then fst (granularity_status g) @ inferred_note else fst (granularity_status g))),
      (''is_po_box'',
         if region = ''US'' then field_or (JBool False) result [''result'', ''metadata'', ''poBox'']
         else JBool False),
      (''is_dpv_confirmed'',
         if region = ''US'' then JBool (usps_field result ''dpvConfirmation'' = JStr ''Y'')
         else JBool False),
      (''is_confirmed'',
         if region = ''US'' \<and> cass
         then (if truthy ic0 then JBool (usps_field result ''dpvConfirmation'' = JStr ''Y'') else ic0)
         else ic0),
      (''is_vacant'', uf ''dpvVacant'' (JBool False)),
      (''is_no_stat'', uf ''dpvNoStat'' (JBool False)),
      (''is_cmra'', uf ''dpvCmra'' (JBool False)),
      (''is_undeliverable'', uf ''undeliverable'' (JBool False)),
      (''dpv_confirmation_description'',
         JStr (case dpv_code result of
                 JStr c \<Rightarrow> (case map_of dpv_mapping c of
                              None \<Rightarrow> ''Unknown DPV Confirmation Code''
                            | Some d \<Rightarrow> d)
               | _ \<Rightarrow> ''Unknown DPV Confirmation Code''))])"

section \<open>Examples\<close>

text \<open>A geocode result for the input "Harvard": one component, a university.\<close>

definition harvard_geocode :: geocode_result where
  "harvard_geocode =
     \<lparr>address_components =
        Some [\<lparr>types = Some [''university'', ''establishment'', ''point_of_interest''],
               long_name = Some ''Harvard University'',
               short_name = Some ''Harvard''\<rparr>],
      formatted_address = Some ''Cambridge, MA 02138''\<rparr>"

text \<open>A response validated to the building with one inferred component.\<close>

definition premise_inferred_response :: json where
  "premise_inferred_response =
     JDict [(''result'', JDict
       [(''verdict'', JDict [(''validationGranularity'', JStr ''PREMISE''),
                             (''addressComplete'', JBool True),
                             (''hasInferredComponents'', JBool True)])])]"

text \<open>A complete response validated to the building, with nothing for review.\<close>

definition premise_response :: json where
  "premise_response =
     JDict [(''result'', JDict
       [(''verdict'', JDict [(''validationGranularity'', JStr ''PREMISE''),
                             (''addressComplete'', JBool True)]),
        (''address'', JDict [(''formattedAddress'', JStr ''1 Main St, Springfield, IL 62701, USA'')]),
        (''metadata'', JDict [(''poBox'', JBool True)]),
        (''uspsData'', JDict [(''dpvConfirmation'', JStr ''Y'')])])]"

text \<open>The same verdict without USPS data.\<close>

definition premise_no_usps_response :: json where
  "premise_no_usps_response =
     JDict [(''result'', JDict
       [(''verdict'', JDict [(''validationGranularity'', JStr ''PREMISE''),
                             (''addressComplete'', JBool True)]),
        (''address'', JDict [(''formattedAddress'', JStr ''1 Main St, Springfield, IL 62701, USA'')])])]"

text \<open>A response with a formatted address whose \<^verbatim>\<open>geocode\<close> member is \<^verbatim>\<open>null\<close>.\<close>

definition null_geocode_response :: json where
  "null_geocode_response =
     JDict [(''result'', JDict
       [(''address'', JDict [(''formattedAddress'', JStr ''1 Main St, Springfield, IL 62701, USA'')]),
        (''geocode'', JNull)])]"

text \<open>The wrapper that \<^verbatim>\<open>validate_address_google\<close> returns for a failed request.\<close>

definition timeout_response :: json where
  "timeout_response = JDict [(''error'', JStr ''Read timed out.'')]"

text \<open>A network that always answers the same, over a world with nothing in it.\<close>

definition example_network :: "unit network" where
  "example_network =
     \<lparr>geocode_get = (\<lambda>w address_text api_key. (Inr [harvard_geocode], w)),
      validate_post = (\<lambda>w request api_key. (Response premise_no_usps_response, w))\<rparr>"

section \<open>Basic facts\<close>

lemma bind_Inr [simp]: "bind (Inr x) f = f x"
  by (simp add: bind_def)

lemma bind_Inl [simp]: "bind (Inl e) f = Inl e"
  by (simp add: bind_def)

lemma bind_eq_Inr: "(bind m f = Inr y) = (\<exists>x. m = Inr x \<and> f x = Inr y)"
  by (cases m) auto

lemma field_or_step: "field_or d (JDict d0) (a # b # ks) = field_or d (dget d0 a (JDict [])) (b # ks)"
  by (simp add: field_or_def dget_def split: option.splits)

lemma field_or_last: "field_or d (JDict vd) [k] = dget vd k d"
  by (simp add: field_or_def dget_def split: option.splits)

lemma bind_py_getE:
  assumes "bind (py_get v k d) f = Inr y"
  obtains kvs where "v = JDict kvs" "f (dget kvs k d) = Inr y"
  using assms by (cases v) auto

lemma bind_assoc: "bind (bind m g) f = bind m (\<lambda>x. bind (g x) f)"
  by (cases m) auto

lemma bind_strsetE:
  assumes "bind (py_in_strset g ss) f = Inr y"
  obtains "f (g \<in> set (map JStr ss)) = Inr y"
  using assms by (cases g) (auto simp: py_in_strset_def)

lemma bind_map_dpvE:
  assumes "bind (map_dpv_confirmation code) f = Inr y"
  obtains "f (JStr (case code of
                    JStr c \<Rightarrow> (case map_of dpv_mapping c of
                                 None \<Rightarrow> ''Unknown DPV Confirmation Code''
                               | Some d \<Rightarrow> d)
                  | _ \<Rightarrow> ''Unknown DPV Confirmation Code'')) = Inr y"
  using assms by (cases code) (auto simp: map_dpv_confirmation_def)

lemma if_Inr: "(if c then Inr a else Inr b) = Inr (if c then a else b)"
  by simp

lemma try_body_out:
  assumes "try_body result orig region cass = Inr out"
  shows "out = main_out result orig region cass"
  using assms unfolding try_body_def main_out_def granularity_def verdict_field_def usps_field_def has_inferred_def dpv_code_def
  apply (simp add: split_beta bind_assoc if_Inr)
  apply (erule bind_py_getE, (simp add: bind_assoc if_Inr)?)+
  apply (cases "truthy (field_or (JBool False) result [''result'', ''verdict'', ''hasInferredComponents''])")
  subgoal
    apply (simp add: field_or_step field_or_last bind_assoc if_Inr split del: if_split)
    apply (erule bind_strsetE)
    apply (erule bind_py_getE, (simp add: bind_assoc if_Inr)?)+
    apply (cases "region = ''US''")
    subgoal
      apply (simp add: bind_assoc if_Inr split del: if_split)
      apply (erule bind_py_getE, (simp add: bind_assoc if_Inr)?)+
      apply (erule bind_map_dpvE)
      apply (simp add: bind_assoc if_Inr Let_def field_or_step field_or_last split del: if_split cong: if_cong)
      done
    subgoal
      apply (simp add: bind_assoc if_Inr split del: if_split)
      apply (erule bind_py_getE, (simp add: bind_assoc if_Inr)?)+
      apply (erule bind_map_dpvE)
      apply (simp add: bind_assoc if_Inr Let_def field_or_step field_or_last split del: if_split cong: if_cong)
      done
    done
  subgoal
    apply (simp add: field_or_step field_or_last bind_assoc if_Inr split del: if_split)
    apply (erule bind_py_getE, (simp add: bind_assoc if_Inr)?)+
    apply (cases "region = ''US''")
    subgoal
      apply (simp add: bind_assoc if_Inr split del: if_split)
      apply (erule bind_py_getE, (simp add: bind_assoc if_Inr)?)+
      apply (erule bind_map_dpvE)
      apply (simp add: bind_assoc if_Inr Let_def field_or_step field_or_last split del: if_split cong: if_cong)
      done
    subgoal
      apply (simp add: bind_assoc if_Inr split del: if_split)
      apply (erule bind_py_getE, (simp add: bind_assoc if_Inr)?)+
      apply (erule bind_map_dpvE)
      apply (simp add: bind_assoc if_Inr Let_def field_or_step field_or_last split del: if_split cong: if_cong)
      done
    done
  done

section \<open>The results of the classifier, key by key\<close>

lemma main_out_is_valid:
  "map_of (main_out result orig region cass) ''is_valid''
     = Some (JBool (snd (granularity_status (granularity result))))"
  by (simp add: main_out_def Let_def)

lemma main_out_status:
  "map_of (main_out result orig region cass) ''validation_status''
     = Some (JStr (fst (granularity_status (granularity result)) @
          (if has_inferred result \<and>
              granularity result \<in> {JStr ''SUB_PREMISE'', JStr ''PREMISE'', JStr ''STREET''}
           then inferred_note else [])))"
  by (auto simp: main_out_def Let_def)

lemma main_out_validated_address:
  "map_of (main_out result orig region cass) ''validated_address''
     = Some (field_or (JStr orig) result [''result'', ''address'', ''formattedAddress''])"
  by (simp add: main_out_def Let_def)




lemma main_out_is_confirmed:
  "map_of (main_out result orig region cass) ''is_confirmed''
     = Some (let vf = verdict_field result;
                 ic0 = py_and (JBool (py_in_strlist (vf ''validationGranularity'') [''PREMISE'', ''SUB_PREMISE'']))
              (py_and (vf ''addressComplete'')
              (py_and (py_not (vf ''hasInferredComponents''))
              (py_and (py_not (vf ''hasReplacedComponents''))
              (py_and (py_not (vf ''unconfirmedComponentTypes''))
              (py_and (py_not (vf ''missingComponentTypes''))
                      (py_not (vf ''unresolvedTokens'')))))))
             in if region = ''US'' \<and> cass
         then (if truthy ic0 then JBool (usps_field result ''dpvConfirmation'' = JStr ''Y'') else ic0)
         else ic0)"
  by (simp add: main_out_def Let_def)

lemma error_result_fields:
  "map_of (error_result orig status) ''is_valid'' = Some (JBool False)"
  "map_of (error_result orig status) ''validation_status'' = Some (JStr status)"
  "map_of (error_result orig status) ''validated_address'' = Some (JStr orig)"
  "map_of (error_result orig status) ''is_po_box'' = None"
  "map_of (error_result orig status) ''is_dpv_confirmed'' = None"
  "map_of (error_result orig status) ''is_confirmed'' = None"
  "map_of (error_result orig status) ''is_vacant'' = None"
  "map_of (error_result orig status) ''is_no_stat'' = None"
  "map_of (error_result orig status) ''is_cmra'' = None"
  "map_of (error_result orig status) ''is_undeliverable'' = None"
  "map_of (error_result orig status) ''dpv_confirmation_description'' = None"
  by (simp_all add: error_result_def)

section \<open>The three ways out of \<^verbatim>\<open>parse_validation_result\<close>\<close>

lemma parse_main:
  assumes "py_contains ''error'' result = Inr False"
      and "try_body result orig region cass = Inr out"
  shows "parse_validation_result str_other result orig region cass = Inr out"
  using assms by (simp add: parse_validation_result_def)

lemma parse_caught:
  assumes "py_contains ''error'' result = Inr False"
      and "try_body result orig region cass = Inl e"
  shows "parse_validation_result str_other result orig region cass
           = Inr (error_result orig (''Parse Error: '' @ exn_message e))"
  using assms by (simp add: parse_validation_result_def)

lemma parse_api_error:
  assumes "map_of kvs ''error'' = Some err"
  shows "parse_validation_result str_other (JDict kvs) orig region cass
           = Inr (error_result orig (''API Error: '' @ py_str str_other err))"
  using assms by (simp add: parse_validation_result_def)

lemma parse_InrE:
  assumes "parse_validation_result str_other result orig region cass = Inr out"
  obtains (api) err where "py_contains ''error'' result = Inr True"
            "out = error_result orig (''API Error: '' @ py_str str_other err)"
        | (caught) e where "py_contains ''error'' result = Inr False"
            "try_body result orig region cass = Inl e"
            "out = error_result orig (''Parse Error: '' @ exn_message e)"
        | (main) "py_contains ''error'' result = Inr False"
            "try_body result orig region cass = Inr out"
proof (cases "py_contains ''error'' result")
  case (Inl e)
  with assms show ?thesis by (simp add: parse_validation_result_def)
next
  case (Inr b)
  show ?thesis
  proof (cases b)
    case True
    with assms Inr obtain err where "out = error_result orig (''API Error: '' @ py_str str_other err)"
      by (auto simp: parse_validation_result_def bind_eq_Inr)
    with Inr True show ?thesis by (simp add: api)
  next
    case False
    show ?thesis
    proof (cases "try_body result orig region cass")
      case (Inl e)
      with assms Inr False show ?thesis
        by (simp add: parse_validation_result_def caught)
    next
      case Inr2: (Inr o2)
      with assms Inr False show ?thesis
        by (simp add: parse_validation_result_def main)
    qed
  qed
qed

lemma granularity_status_nonempty: "fst (granularity_status g) \<noteq> []"
  by (simp add: granularity_status_def)



lemma parse_is_confirmed_main:
  assumes "parse_validation_result str_other result orig region cass = Inr out"
      and "map_of out ''is_confirmed'' = Some v"
  shows "out = main_out result orig region cass"
  using assms(1)
proof (cases rule: parse_InrE)
  case (api err)
  with assms(2) show ?thesis by (simp add: error_result_fields)
next
  case (caught e)
  with assms(2) show ?thesis by (simp add: error_result_fields)
next
  case main
  then show ?thesis by (simp add: try_body_out)
qed


lemma try_body_main:
  assumes "try_body result orig region cass = Inr out"
  shows "try_body result orig region cass = Inr (main_out result orig region cass)"
  using assms try_body_out [OF assms] by simp

section \<open>The example responses\<close>

lemma try_body_premise_response:
  "try_body premise_response orig region cass = Inr (main_out premise_response orig region cass)"
proof -
  have "\<exists>out. try_body premise_response orig region cass = Inr out"
    by (simp add: try_body_def premise_response_def dget_def split_beta bind_assoc if_Inr
          py_in_strset_def map_dpv_confirmation_def cong: if_cong)
  then show ?thesis using try_body_main by blast
qed

lemma try_body_premise_no_usps_response:
  "try_body premise_no_usps_response orig region cass =
     Inr (main_out premise_no_usps_response orig region cass)"
proof -
  have "\<exists>out. try_body premise_no_usps_response orig region cass = Inr out"
    by (simp add: try_body_def premise_no_usps_response_def dget_def split_beta bind_assoc if_Inr
          py_in_strset_def map_dpv_confirmation_def cong: if_cong)
  then show ?thesis using try_body_main by blast
qed

lemma try_body_premise_inferred_response:
  "try_body premise_inferred_response orig region cass =
     Inr (main_out premise_inferred_response orig region cass)"
proof -
  have "\<exists>out. try_body premise_inferred_response orig region cass = Inr out"
    by (simp add: try_body_def premise_inferred_response_def dget_def split_beta bind_assoc if_Inr
          py_in_strset_def map_dpv_confirmation_def cong: if_cong)
  then show ?thesis using try_body_main by blast
qed

lemma try_body_null_geocode_response:
  "try_body null_geocode_response orig region cass = Inl (AttributeError ''NoneType'' ''get'')"
  by (simp add: try_body_def null_geocode_response_def dget_def split_beta)

lemma no_error_key:
  "py_contains ''error'' premise_response = Inr False"
  "py_contains ''error'' premise_no_usps_response = Inr False"
  "py_contains ''error'' premise_inferred_response = Inr False"
  "py_contains ''error'' null_geocode_response = Inr False"
  by (simp_all add: premise_response_def premise_no_usps_response_def
        premise_inferred_response_def null_geocode_response_def)

lemma premise_inferred_fields:
  "granularity premise_inferred_response = JStr ''PREMISE''"
  "has_inferred premise_inferred_response"
  by (simp_all add: granularity_def has_inferred_def field_or_def premise_inferred_response_def)

lemma premise_fields:
  "granularity premise_response = JStr ''PREMISE''"
  "\<not> has_inferred premise_response"
  "verdict_field premise_response ''validationGranularity'' = JStr ''PREMISE''"
  "verdict_field premise_response ''addressComplete'' = JBool True"
  "verdict_field premise_response ''hasInferredComponents'' = JNull"
  "verdict_field premise_response ''hasReplacedComponents'' = JNull"
  "verdict_field premise_response ''unconfirmedComponentTypes'' = JNull"
  "verdict_field premise_response ''missingComponentTypes'' = JNull"
  "verdict_field premise_response ''unresolvedTokens'' = JNull"
  "usps_field premise_response ''dpvConfirmation'' = JStr ''Y''"
  "dpv_code premise_response = JStr ''Y''"
  "field_or (JBool False) premise_response [''result'', ''metadata'', ''poBox''] = JBool True"
  "field_or (JStr orig) premise_response [''result'', ''address'', ''formattedAddress'']
     = JStr ''1 Main St, Springfield, IL 62701, USA''"
  by (simp_all add: granularity_def has_inferred_def verdict_field_def usps_field_def dpv_code_def
        field_or_def premise_response_def)

lemma premise_no_usps_fields:
  "verdict_field premise_no_usps_response ''validationGranularity'' = JStr ''PREMISE''"
  "verdict_field premise_no_usps_response ''addressComplete'' = JBool True"
  "verdict_field premise_no_usps_response ''hasInferredComponents'' = JNull"
  "verdict_field premise_no_usps_response ''hasReplacedComponents'' = JNull"
  "verdict_field premise_no_usps_response ''unconfirmedComponentTypes'' = JNull"
  "verdict_field premise_no_usps_response ''missingComponentTypes'' = JNull"
  "verdict_field premise_no_usps_response ''unresolvedTokens'' = JNull"
  "usps_field premise_no_usps_response ''dpvConfirmation'' = JNull"
  "dpv_code premise_no_usps_response = JStr ''N/A''"
  "path_get premise_no_usps_response [''result'', ''uspsData''] = None"
  by (simp_all add: verdict_field_def usps_field_def dpv_code_def
        field_or_def premise_no_usps_response_def)

lemma premise_is_confirmed:
  "map_of (main_out premise_response orig ''US'' True) ''is_confirmed'' = Some (JBool True)"
  by (simp add: main_out_is_confirmed premise_fields Let_def py_and_def py_not_def
        py_in_strlist_def)

lemma premise_no_usps_is_confirmed:
  "map_of (main_out premise_no_usps_response orig ''US'' True) ''is_confirmed'' = Some (JBool False)"
  "map_of (main_out premise_no_usps_response orig ''US'' False) ''is_confirmed'' = Some (JBool True)"
  by (simp_all add: main_out_is_confirmed premise_no_usps_fields Let_def py_and_def py_not_def
        py_in_strlist_def)

lemma parse_premise_response:
  "parse_validation_result str_other premise_response orig region cass =
     Inr (main_out premise_response orig region cass)"
  using no_error_key(1) try_body_premise_response by (rule parse_main)

section \<open>The request builder and the driver\<close>

lemma first_occurrences_snoc:
  "first_occurrences (xs @ [x]) =
     (if x \<in> set xs then first_occurrences xs else first_occurrences xs @ [x])"
  by (simp add: first_occurrences_def)

lemma set_first_occurrences: "set (first_occurrences xs) = set xs"
  by (simp add: first_occurrences_def)

lemma distinct_first_occurrences: "distinct (first_occurrences xs)"
  by (simp add: first_occurrences_def)

lemma poi_long_names_Nil: "poi_long_names [] = []"
  by (simp add: poi_long_names_def map_filter_simps)

lemma poi_long_names_Cons:
  "poi_long_names (c # cs) =
     (if is_poi c then (case long_name c of None \<Rightarrow> [] | Some n \<Rightarrow> [n]) else []) @ poi_long_names cs"
  by (simp add: poi_long_names_def map_filter_simps split: option.splits)

lemma scan_component_names:
  assumes "scan_component c (comps, first_occurrences ys) = Inr (comps', names)"
  shows "names = first_occurrences (ys @ poi_long_names [c])"
proof (cases "types c")
  case None
  with assms show ?thesis by (simp add: scan_component_def subscript_key_def)
next
  case (Some tys)
  show ?thesis
  proof (cases "is_poi c")
    case True
    with Some assms obtain n where n: "long_name c = Some n"
      "names = (if n \<notin> set ys then first_occurrences ys @ [n] else first_occurrences ys)"
      by (cases "long_name c")
         (auto simp: scan_component_def subscript_key_def is_poi_def set_first_occurrences)
    with True show ?thesis
      by (simp add: poi_long_names_Cons poi_long_names_Nil first_occurrences_snoc)
  next
    case False
    with Some assms have "names = first_occurrences ys"
      by (auto simp: scan_component_def subscript_key_def is_poi_def bind_eq_Inr
               split: if_splits)
    with False show ?thesis
      by (simp add: poi_long_names_Cons poi_long_names_Nil)
  qed
qed

lemma scan_components_names:
  "scan_components cs (comps, first_occurrences ys) = Inr (comps', names)
    \<Longrightarrow> names = first_occurrences (ys @ poi_long_names cs)"
proof (induction cs arbitrary: comps ys)
  case Nil
  then show ?case by (simp add: poi_long_names_Nil)
next
  case (Cons c cs)
  from Cons.prems obtain comps1 names1 where
    1: "scan_component c (comps, first_occurrences ys) = Inr (comps1, names1)" and
    2: "scan_components cs (comps1, names1) = Inr (comps', names)"
    by (auto simp: bind_eq_Inr)
  from 1 have n1: "names1 = first_occurrences (ys @ poi_long_names [c])"
    by (rule scan_component_names)
  from 2 have "names = first_occurrences ((ys @ poi_long_names [c]) @ poi_long_names cs)"
    unfolding n1 by (rule Cons.IH)
  then show ?case
    by (simp add: poi_long_names_Cons [of c cs] poi_long_names_Cons [of c "[]"] poi_long_names_Nil)
qed

lemma foldl_snoc: "foldl (\<lambda>acc name. acc @ [name]) acc xs = acc @ xs"
  by (induction xs arbitrary: acc) simp_all

lemma harvard_request:
  "build_validation_request harvard_geocode ''Harvard'' =
     Inr \<lparr>address = \<lparr>locality = None, administrativeArea = None, regionCode = Some ''US'',
                      postalCode = None,
                      addressLines = Some [''Harvard'', ''Harvard University'',
                                           ''Cambridge, MA 02138'']\<rparr>\<rparr>"
  by (simp add: build_validation_request_def harvard_geocode_def scan_component_def
        subscript_key_def empty_components_def)

lemma validate_ignores_flags:
  "validate_address_google net addr api_key flag region w =
   validate_address_google net addr api_key flag' region' w"
  by (simp add: validate_address_google_def Let_def split: prod.splits sum.splits)

lemma process_row_ignores_flag:
  "process_row str_other net address_column api_key flag row w =
   process_row str_other net address_column api_key flag' row w"
  unfolding process_row_def Let_def
  by (simp add: validate_ignores_flags [of net _ api_key flag "''US''" w flag' "''US''"]
        cong: sum.case_cong)

lemma process_loop_ignores_flag:
  "process_loop str_other net address_column api_key flag rows results w =
   process_loop str_other net address_column api_key flag' rows results w"
proof (induction rows arbitrary: results w)
  case Nil
  show ?case by simp
next
  case (Cons row rows)
  show ?case
    by (simp add: process_row_ignores_flag [of str_other net address_column api_key flag row w flag']
          Cons.IH split: prod.splits sum.splits)
qed

lemma example_row:
  "process_row no_repr example_network ''address'' ''key'' False [(''address'', JStr ''Harvard'')] ()
     = (Inr (dict_update [(''address'', JStr ''Harvard'')]
               (main_out premise_no_usps_response ''Harvard'' ''US'' True)), ())"
proof -
  have p: "parse_validation_result no_repr premise_no_usps_response ''Harvard'' ''US'' True
         = Inr (main_out premise_no_usps_response ''Harvard'' ''US'' True)"
    using no_error_key(2) try_body_premise_no_usps_response by (rule parse_main)
  have v: "validate_address_google example_network ''Harvard'' ''key'' False ''US'' ()
         = (Inr premise_no_usps_response, ())"
    by (simp add: validate_address_google_def geocode_address_def example_network_def
          harvard_request Let_def)
  show ?thesis
    by (simp add: process_row_def py_str_def v p default_region_code_def
          default_enable_usps_cass_def Let_def)
qed

section \<open>The claims\<close>

subsection \<open>C1: the granularity table\<close>

text \<open>
  As stated, C1 gives \<^verbatim>\<open>validation_status\<close> as exactly the table's text. The response
  below is validated to the building and has an inferred component: its status is
  the table's text followed by the note of line 168, not the table's text.
\<close>

theorem premise_inferred_status_counterexample:
  "granularity premise_inferred_response = JStr ''PREMISE''
   \<and> returned (parse_validation_result no_repr premise_inferred_response ''1 main st'' ''US'' True)
        ''validation_status''
      = Some (JStr (''Standard Mailable Address (Validated to building)'' @ inferred_note))
   \<and> returned (parse_validation_result no_repr premise_inferred_response ''1 main st'' ''US'' True)
        ''validation_status''
      \<noteq> Some (JStr ''Standard Mailable Address (Validated to building)'')"
proof -
  have p: "parse_validation_result no_repr premise_inferred_response ''1 main st'' ''US'' True
         = Inr (main_out premise_inferred_response ''1 main st'' ''US'' True)"
    using no_error_key(3) try_body_premise_inferred_response by (rule parse_main)
  show ?thesis
    unfolding p returned_def
    by (simp add: main_out_status premise_inferred_fields granularity_status_def inferred_note_def)
qed

text \<open>
  C1, amended. When the response has no \<^verbatim>\<open>error\<close> key and the \<^verbatim>\<open>try\<close> block runs to
  its return, \<^verbatim>\<open>is_valid\<close> is the flag that the table gives for the granularity, and
  \<^verbatim>\<open>validation_status\<close> is the table's text, followed by the inferred-components note
  exactly when \<^verbatim>\<open>hasInferredComponents\<close> is true and the granularity is SUB_PREMISE,
  PREMISE or STREET. The table is the one of the specification: SUB_PREMISE, PREMISE
  and STREET are valid with their three texts; LOCALITY, REGION, COUNTRY and OTHER are
  invalid with their four texts; any other value, and a missing
  \<^verbatim>\<open>validationGranularity\<close>, gives the unknown-granularity row.
\<close>

theorem status_table_with_note:
  assumes "py_contains ''error'' result = Inr False"
      and "try_body result orig region cass = Inr out"
  shows "parse_validation_result str_other result orig region cass = Inr out
       \<and> map_of out ''is_valid'' = Some (JBool (snd (granularity_status (granularity result))))
       \<and> map_of out ''validation_status'' =
            Some (JStr (fst (granularity_status (granularity result)) @
               (if has_inferred result \<and>
                   granularity result \<in> {JStr ''SUB_PREMISE'', JStr ''PREMISE'', JStr ''STREET''}
                then inferred_note else [])))
       \<and> granularity_status (JStr ''SUB_PREMISE'') =
            (''Highly Mailable Address (Validated to sub-unit)'', True)
       \<and> granularity_status (JStr ''PREMISE'') =
            (''Standard Mailable Address (Validated to building)'', True)
       \<and> granularity_status (JStr ''STREET'') =
            (''Partial Address (Street-level only, may not be reliably mailable)'', True)
       \<and> granularity_status (JStr ''LOCALITY'') =
            (''Non-Mailable Address (Only city-level validated)'', False)
       \<and> granularity_status (JStr ''REGION'') =
            (''Non-Mailable Address (Only region/state validated)'', False)
       \<and> granularity_status (JStr ''COUNTRY'') =
            (''Non-Mailable Address (Only country validated)'', False)
       \<and> granularity_status (JStr ''OTHER'') =
            (''Non-Mailable Address (Unknown or unvalidated)'', False)
       \<and> (granularity result \<notin> JStr ` {''SUB_PREMISE'', ''PREMISE'', ''STREET'', ''LOCALITY'',
                                         ''REGION'', ''COUNTRY'', ''OTHER''}
            \<longrightarrow> granularity_status (granularity result) =
                  (''Non-Mailable Address (Unknown validation granularity)'', False))
       \<and> (path_get result [''result'', ''verdict'', ''validationGranularity''] = None
            \<longrightarrow> granularity_status (granularity result) =
                  (''Non-Mailable Address (Unknown validation granularity)'', False))"
proof -
  have out: "out = main_out result orig region cass"
    using assms(2) by (rule try_body_out)
  have 1: "parse_validation_result str_other result orig region cass = Inr out"
    using assms by (rule parse_main)
  have 2: "map_of out ''is_valid'' = Some (JBool (snd (granularity_status (granularity result))))"
    unfolding out by (rule main_out_is_valid)
  have 3: "map_of out ''validation_status'' =
            Some (JStr (fst (granularity_status (granularity result)) @
               (if has_inferred result \<and>
                   granularity result \<in> {JStr ''SUB_PREMISE'', JStr ''PREMISE'', JStr ''STREET''}
                then inferred_note else [])))"
    unfolding out by (rule main_out_status)
  have 4: "granularity result \<notin> JStr ` {''SUB_PREMISE'', ''PREMISE'', ''STREET'', ''LOCALITY'',
                                         ''REGION'', ''COUNTRY'', ''OTHER''}
            \<longrightarrow> granularity_status (granularity result) =
                  (''Non-Mailable Address (Unknown validation granularity)'', False)"
    by (simp add: granularity_status_def)
  have 5: "path_get result [''result'', ''verdict'', ''validationGranularity''] = None
            \<longrightarrow> granularity_status (granularity result) =
                  (''Non-Mailable Address (Unknown validation granularity)'', False)"
    by (simp add: granularity_status_def granularity_def field_or_def)
  show ?thesis
    using 1 2 3 4 5 by (simp add: granularity_status_def)
qed

text \<open>The amended C1 at the response with an inferred component.\<close>

theorem status_table_with_note_witness:
  "py_contains ''error'' premise_inferred_response = Inr False
   \<and> try_body premise_inferred_response ''1 main st'' ''US'' True =
       Inr (main_out premise_inferred_response ''1 main st'' ''US'' True)
   \<and> parse_validation_result no_repr premise_inferred_response ''1 main st'' ''US'' True =
       Inr (main_out premise_inferred_response ''1 main st'' ''US'' True)
   \<and> map_of (main_out premise_inferred_response ''1 main st'' ''US'' True) ''is_valid''
       = Some (JBool True)
   \<and> map_of (main_out premise_inferred_response ''1 main st'' ''US'' True) ''validation_status''
       = Some (JStr (''Standard Mailable Address (Validated to building)'' @ inferred_note))"
  using status_table_with_note [OF no_error_key(3) try_body_premise_inferred_response,
          of no_repr "''1 main st''" "''US''" True]
        no_error_key(3) try_body_premise_inferred_response [of "''1 main st''" "''US''" True]
  by (simp add: premise_inferred_fields)

subsection \<open>C2: when \<^verbatim>\<open>is_confirmed\<close> is true\<close>

text \<open>
  C2. Whatever the input, if the returned dict carries \<^verbatim>\<open>is_confirmed\<close>, its value is
  \<^verbatim>\<open>True\<close> exactly when all of these hold: the granularity is PREMISE or SUB_PREMISE,
  \<^verbatim>\<open>addressComplete\<close> is true, \<^verbatim>\<open>hasInferredComponents\<close> and \<^verbatim>\<open>hasReplacedComponents\<close>
  are false, \<^verbatim>\<open>unconfirmedComponentTypes\<close>, \<^verbatim>\<open>missingComponentTypes\<close> and
  \<^verbatim>\<open>unresolvedTokens\<close> are empty, and, when the region is "US" and CASS is enabled,
  \<^verbatim>\<open>uspsData.dpvConfirmation\<close> is "Y". So \<^verbatim>\<open>is_confirmed\<close> is true only if each condition
  holds, and a response in which any one of them fails gets a value that is not true:
  any value other than \<^verbatim>\<open>True\<close> that the key takes is false in Python's truth test.
  True, false and empty are Python's truth values of the fields, a missing field
  counting as \<^verbatim>\<open>None\<close>.
\<close>

theorem is_confirmed_requires:
  assumes "parse_validation_result str_other result orig region cass = Inr out"
      and "map_of out ''is_confirmed'' = Some v"
  shows "(v = JBool True \<longleftrightarrow>
            verdict_field result ''validationGranularity'' \<in> {JStr ''PREMISE'', JStr ''SUB_PREMISE''}
          \<and> truthy (verdict_field result ''addressComplete'')
          \<and> \<not> truthy (verdict_field result ''hasInferredComponents'')
          \<and> \<not> truthy (verdict_field result ''hasReplacedComponents'')
          \<and> \<not> truthy (verdict_field result ''unconfirmedComponentTypes'')
          \<and> \<not> truthy (verdict_field result ''missingComponentTypes'')
          \<and> \<not> truthy (verdict_field result ''unresolvedTokens'')
          \<and> (region = ''US'' \<and> cass \<longrightarrow> usps_field result ''dpvConfirmation'' = JStr ''Y''))
       \<and> (v \<noteq> JBool True \<longrightarrow> \<not> truthy v)"
proof -
  have "out = main_out result orig region cass"
    using assms by (rule parse_is_confirmed_main)
  with assms(2) have v: "v = (let vf = verdict_field result;
                 ic0 = py_and (JBool (py_in_strlist (vf ''validationGranularity'') [''PREMISE'', ''SUB_PREMISE'']))
              (py_and (vf ''addressComplete'')
              (py_and (py_not (vf ''hasInferredComponents''))
              (py_and (py_not (vf ''hasReplacedComponents''))
              (py_and (py_not (vf ''unconfirmedComponentTypes''))
              (py_and (py_not (vf ''missingComponentTypes''))
                      (py_not (vf ''unresolvedTokens'')))))))
             in if region = ''US'' \<and> cass
         then (if truthy ic0 then JBool (usps_field result ''dpvConfirmation'' = JStr ''Y'') else ic0)
         else ic0)"
    by (simp add: main_out_is_confirmed)
  show ?thesis
    unfolding v Let_def py_and_def py_not_def py_in_strlist_def
    by auto
qed

text \<open>C2 at a complete response validated to the building, region "US", CASS enabled.\<close>

theorem is_confirmed_requires_witness:
  "parse_validation_result no_repr premise_response ''1 main st'' ''US'' True =
     Inr (main_out premise_response ''1 main st'' ''US'' True)
   \<and> map_of (main_out premise_response ''1 main st'' ''US'' True) ''is_confirmed''
       = Some (JBool True)
   \<and> verdict_field premise_response ''validationGranularity'' = JStr ''PREMISE''
   \<and> truthy (verdict_field premise_response ''addressComplete'')
   \<and> \<not> truthy (verdict_field premise_response ''hasInferredComponents'')
   \<and> \<not> truthy (verdict_field premise_response ''hasReplacedComponents'')
   \<and> \<not> truthy (verdict_field premise_response ''unconfirmedComponentTypes'')
   \<and> \<not> truthy (verdict_field premise_response ''missingComponentTypes'')
   \<and> \<not> truthy (verdict_field premise_response ''unresolvedTokens'')
   \<and> usps_field premise_response ''dpvConfirmation'' = JStr ''Y''"
  using is_confirmed_requires
          [OF parse_premise_response [of no_repr "''1 main st''" "''US''" True]
              premise_is_confirmed [of "''1 main st''"]]
        parse_premise_response [of no_repr "''1 main st''" "''US''" True]
        premise_is_confirmed [of "''1 main st''"]
  by (simp add: premise_fields)

subsection \<open>C3: inputs on which the function raises\<close>

text \<open>
  C3 says that the function returns a result for every input. The test
  \<^verbatim>\<open>"error" in result\<close> and the read \<^verbatim>\<open>result['error']\<close> stand before the \<^verbatim>\<open>try\<close>: for
  the JSON document \<^verbatim>\<open>null\<close> the test raises \<^verbatim>\<open>TypeError\<close>, and for the list
  \<^verbatim>\<open>["error"]\<close> the read raises \<^verbatim>\<open>TypeError\<close>; neither is caught.
\<close>

theorem error_test_outside_try:
  "parse_validation_result str_other JNull orig region cass =
     Inl (TypeError (''argument of type '' @ quoted ''NoneType'' @ '' is not iterable''))
   \<and> parse_validation_result str_other (JList [JStr ''error'']) orig region cass =
     Inl (TypeError ''list indices must be integers or slices, not str'')"
  by (simp add: parse_validation_result_def)

subsection \<open>C4: the address lines of the request\<close>

text \<open>
  As stated, C4 gives the lines for the name "Harvard University", the input "Harvard"
  and the formatted address "Cambridge, MA 02138" with the name first. The builder
  puts the input first.
\<close>

theorem harvard_lines_counterexample:
  "build_validation_request harvard_geocode ''Harvard'' =
     Inr \<lparr>address = \<lparr>locality = None, administrativeArea = None, regionCode = Some ''US'',
                      postalCode = None,
                      addressLines = Some [''Harvard'', ''Harvard University'',
                                           ''Cambridge, MA 02138'']\<rparr>\<rparr>
   \<and> [''Harvard'', ''Harvard University'', ''Cambridge, MA 02138'']
       \<noteq> [''Harvard University'', ''Harvard'', ''Cambridge, MA 02138'']"
  by (simp add: build_validation_request_def harvard_geocode_def scan_component_def
        subscript_key_def empty_components_def)

text \<open>
  C4, amended. When \<^verbatim>\<open>build_validation_request\<close> returns, \<^verbatim>\<open>addressLines\<close> is: the
  original input, if it is not among the point-of-interest names; then the long names
  of the components typed point_of_interest, establishment or university, in the
  order met, each at its first occurrence only; then the formatted address, if it is
  neither one of those names nor the original input. No line occurs twice. For the
  Harvard example the lines are "Harvard", "Harvard University",
  "Cambridge, MA 02138".
\<close>

theorem address_lines_order:
  assumes "build_validation_request g original_input = Inr req"
  shows "\<exists>pois formatted lines.
           pois = first_occurrences
                    (poi_long_names (case address_components g of None \<Rightarrow> [] | Some cs \<Rightarrow> cs))
         \<and> formatted = (case formatted_address g of None \<Rightarrow> [] | Some s \<Rightarrow> s)
         \<and> addressLines (address req) = Some lines
         \<and> lines = (if original_input \<in> set pois then pois else original_input # pois)
                   @ (if formatted \<in> set pois \<union> {original_input} then [] else [formatted])
         \<and> distinct lines"
proof -
  let ?cs = "case address_components g of None \<Rightarrow> [] | Some cs \<Rightarrow> cs"
  let ?f = "case formatted_address g of None \<Rightarrow> [] | Some s \<Rightarrow> s"
  let ?pois = "first_occurrences (poi_long_names ?cs)"
  let ?l1 = "if original_input \<in> set ?pois then ?pois else original_input # ?pois"
  let ?lines = "?l1 @ (if ?f \<in> set ?pois \<union> {original_input} then [] else [?f])"
  from assms obtain comps names where
    sc: "scan_components ?cs (empty_components, []) = Inr (comps, names)" and
    req: "addressLines (address req) =
            Some (let l0 = foldl (\<lambda>acc name. acc @ [name]) [] names;
                      l1 = (if original_input \<notin> set l0 then original_input # l0 else l0)
                  in if ?f \<notin> set l1 then l1 @ [?f] else l1)"
    by (auto simp: build_validation_request_def Let_def bind_eq_Inr split: option.splits)
  have "first_occurrences ([] :: string list) = []"
    by (simp add: first_occurrences_def)
  with sc have "scan_components ?cs (empty_components, first_occurrences []) = Inr (comps, names)"
    by simp
  then have names: "names = ?pois"
    using scan_components_names [of ?cs empty_components "[]" comps names] by simp
  have d: "distinct ?pois" by (rule distinct_first_occurrences)
  have l: "addressLines (address req) = Some ?lines"
    unfolding req names by (auto simp: foldl_snoc Let_def)
  have "distinct ?l1" using d by simp
  moreover have "set ?l1 = set ?pois \<union> {original_input}" by auto
  ultimately have "distinct ?lines" by auto
  with l show ?thesis by blast
qed

text \<open>The amended C4 at the Harvard example.\<close>

theorem address_lines_order_witness:
  "build_validation_request harvard_geocode ''Harvard'' =
     Inr \<lparr>address = \<lparr>locality = None, administrativeArea = None, regionCode = Some ''US'',
                      postalCode = None,
                      addressLines = Some [''Harvard'', ''Harvard University'',
                                           ''Cambridge, MA 02138'']\<rparr>\<rparr>
   \<and> (\<exists>pois formatted lines.
           pois = [''Harvard University'']
         \<and> formatted = ''Cambridge, MA 02138''
         \<and> lines = [''Harvard'', ''Harvard University'', ''Cambridge, MA 02138'']
         \<and> distinct lines)"
  using address_lines_order [OF harvard_request] harvard_request
  by (simp add: harvard_geocode_def first_occurrences_def poi_long_names_def is_poi_def
        )

subsection \<open>C5: the API-error path\<close>

text \<open>
  C5. For every response that is an object with a top-level \<^verbatim>\<open>error\<close> key, the function
  returns at once: \<^verbatim>\<open>is_valid\<close> is \<^verbatim>\<open>False\<close>, \<^verbatim>\<open>validation_status\<close> is "API Error: "
  followed by the error value as \<^verbatim>\<open>str\<close> formats it (the message itself when it is a
  string), \<^verbatim>\<open>validated_address\<close> is the original address, and none of the seven
  boolean flags is set.
\<close>

theorem api_error_short_circuit:
  assumes "map_of kvs ''error'' = Some err"
  shows "parse_validation_result str_other (JDict kvs) orig region cass =
           Inr (error_result orig (''API Error: '' @ py_str str_other err))
       \<and> returned (parse_validation_result str_other (JDict kvs) orig region cass) ''is_valid''
           = Some (JBool False)
       \<and> returned (parse_validation_result str_other (JDict kvs) orig region cass) ''validation_status''
           = Some (JStr (''API Error: '' @ py_str str_other err))
       \<and> (\<forall>msg. err = JStr msg \<longrightarrow> py_str str_other err = msg)
       \<and> returned (parse_validation_result str_other (JDict kvs) orig region cass) ''validated_address''
           = Some (JStr orig)
       \<and> (\<forall>flag \<in> set [''is_po_box'', ''is_dpv_confirmed'', ''is_confirmed'', ''is_vacant'',
                         ''is_no_stat'', ''is_cmra'', ''is_undeliverable''].
            returned (parse_validation_result str_other (JDict kvs) orig region cass) flag = None)"
  unfolding parse_api_error [OF assms]
  by (simp add: returned_def error_result_fields py_str_def)

text \<open>C5 at the wrapper of a request that timed out.\<close>

theorem api_error_short_circuit_witness:
  "map_of [(''error'', JStr ''Read timed out.'')] ''error'' = Some (JStr ''Read timed out.'')
   \<and> parse_validation_result no_repr timeout_response ''1 main st'' ''US'' True =
       Inr (error_result ''1 main st'' ''API Error: Read timed out.'')
   \<and> returned (parse_validation_result no_repr timeout_response ''1 main st'' ''US'' True)
        ''is_valid'' = Some (JBool False)
   \<and> returned (parse_validation_result no_repr timeout_response ''1 main st'' ''US'' True)
        ''is_confirmed'' = None"
proof -
  have h: "map_of [(''error'', JStr ''Read timed out.'')] ''error'' = Some (JStr ''Read timed out.'')"
    by simp
  show ?thesis
    using api_error_short_circuit [OF h, of no_repr "''1 main st''" "''US''" True] h
    by (simp add: timeout_response_def py_str_def returned_def error_result_fields)
qed

subsection \<open>C6: the flags gated by the region\<close>



subsection \<open>C7: the description of the DPV code\<close>



subsection \<open>C8: the inferred-components note\<close>



subsection \<open>C9: what every result carries\<close>

text \<open>
  As stated, C9 gives \<^verbatim>\<open>validated_address\<close> as the response's formatted address
  whenever it is present, on the error paths too. The response below has a formatted
  address and a \<^verbatim>\<open>geocode\<close> member that is \<^verbatim>\<open>null\<close>: parsing raises, the exception is
  caught, and \<^verbatim>\<open>validated_address\<close> is the original input.
\<close>

theorem formatted_address_dropped_counterexample:
  "path_get null_geocode_response [''result'', ''address'', ''formattedAddress'']
     = Some (JStr ''1 Main St, Springfield, IL 62701, USA'')
   \<and> returned (parse_validation_result no_repr null_geocode_response ''1 main st'' ''US'' True)
        ''validated_address''
      = Some (JStr ''1 main st'')"
proof -
  have p: "parse_validation_result no_repr null_geocode_response ''1 main st'' ''US'' True
         = Inr (error_result ''1 main st''
                  (''Parse Error: '' @ exn_message (AttributeError ''NoneType'' ''get'')))"
    using no_error_key(4) try_body_null_geocode_response by (rule parse_caught)
  show ?thesis
    unfolding p returned_def
    by (simp add: error_result_fields null_geocode_response_def)
qed

text \<open>
  C9, amended. Every result that the function returns carries \<^verbatim>\<open>is_valid\<close> as a
  boolean and \<^verbatim>\<open>validation_status\<close> as a non-empty string, on the API-error and
  parse-error paths too. \<^verbatim>\<open>validated_address\<close> is the response's formatted address
  (the original input when the key is missing) when the response has no \<^verbatim>\<open>error\<close> key
  and the \<^verbatim>\<open>try\<close> block runs to its return; on the API-error and parse-error paths it
  is the original input, whether or not the response holds a formatted address.
\<close>

theorem result_invariant:
  assumes "parse_validation_result str_other result orig region cass = Inr out"
  shows "(\<exists>b. map_of out ''is_valid'' = Some (JBool b))
       \<and> (\<exists>s. map_of out ''validation_status'' = Some (JStr s) \<and> s \<noteq> [])
       \<and> map_of out ''validated_address'' =
           Some (if py_contains ''error'' result = Inr False
                    \<and> \<not> isl (try_body result orig region cass)
                 then field_or (JStr orig) result [''result'', ''address'', ''formattedAddress'']
                 else JStr orig)"
  using assms
proof (cases rule: parse_InrE)
  case (api err)
  then show ?thesis by (auto simp: error_result_fields)
next
  case (caught e)
  then show ?thesis by (auto simp: error_result_fields)
next
  case main
  have out: "out = main_out result orig region cass"
    using main(2) by (rule try_body_out)
  have s: "fst (granularity_status (granularity result)) @
               (if has_inferred result \<and>
                   granularity result \<in> {JStr ''SUB_PREMISE'', JStr ''PREMISE'', JStr ''STREET''}
                then inferred_note else []) \<noteq> []"
    using granularity_status_nonempty [of "granularity result"] by simp
  show ?thesis
    unfolding out main_out_is_valid main_out_status main_out_validated_address
    using main s by simp
qed

text \<open>The amended C9 at a complete response.\<close>

theorem result_invariant_witness:
  "parse_validation_result no_repr premise_response ''1 main st'' ''US'' True =
     Inr (main_out premise_response ''1 main st'' ''US'' True)
   \<and> map_of (main_out premise_response ''1 main st'' ''US'' True) ''validated_address''
       = Some (JStr ''1 Main St, Springfield, IL 62701, USA'')
   \<and> (\<exists>b. map_of (main_out premise_response ''1 main st'' ''US'' True) ''is_valid''
            = Some (JBool b))
   \<and> (\<exists>s. map_of (main_out premise_response ''1 main st'' ''US'' True) ''validation_status''
            = Some (JStr s) \<and> s \<noteq> [])"
  using result_invariant [OF parse_premise_response [of no_repr "''1 main st''" "''US''" True]]
        parse_premise_response [of no_repr "''1 main st''" "''US''" True]
  by (simp add: no_error_key try_body_premise_response premise_fields)

subsection \<open>C10: the driver calls the classifier with its defaults\<close>

text \<open>
  C10. For every row that \<^verbatim>\<open>process_addresses\<close> processes, the row's result is the row
  updated with \<^verbatim>\<open>parse_validation_result\<close> of the response and the address text at
  region "US" with CASS checking on, whatever \<^verbatim>\<open>enable_cass\<close> the driver was given:
  the row's result, and the result of the whole batch, are the same for every value
  of the flag.
\<close>

theorem driver_uses_defaults:
  assumes "process_row str_other net address_column api_key enable_cass row w = (Inr result_row, w')"
  shows "(\<exists>cell addr response parsed.
            py_subscript (JDict row) address_column = Inr cell
          \<and> addr = py_str str_other cell
          \<and> validate_address_google net addr api_key enable_cass ''US'' w = (Inr response, w')
          \<and> parse_validation_result str_other response addr ''US'' True = Inr parsed
          \<and> result_row = dict_update row parsed)
       \<and> (\<forall>flag. process_row str_other net address_column api_key flag row w = (Inr result_row, w'))
       \<and> (\<forall>flag df. process_addresses str_other net df address_column api_key flag w =
                      process_addresses str_other net df address_column api_key enable_cass w)"
proof (intro conjI allI)
  show "\<exists>cell addr response parsed.
            py_subscript (JDict row) address_column = Inr cell
          \<and> addr = py_str str_other cell
          \<and> validate_address_google net addr api_key enable_cass ''US'' w = (Inr response, w')
          \<and> parse_validation_result str_other response addr ''US'' True = Inr parsed
          \<and> result_row = dict_update row parsed"
    using assms unfolding process_row_def default_region_code_def default_enable_usps_cass_def Let_def
    by (auto split: sum.splits prod.splits)
next
  fix flag
  show "process_row str_other net address_column api_key flag row w = (Inr result_row, w')"
    using assms process_row_ignores_flag [of str_other net address_column api_key flag row w enable_cass]
    by simp
next
  fix flag df
  show "process_addresses str_other net df address_column api_key flag w =
        process_addresses str_other net df address_column api_key enable_cass w"
    unfolding process_addresses_def by (rule process_loop_ignores_flag)
qed

text \<open>
  C10 at a one-row batch run with \<^verbatim>\<open>enable_cass\<close> false: the complete response
  without USPS data is not confirmed, as with CASS on; with CASS off the classifier
  would confirm it.
\<close>

theorem driver_uses_defaults_witness:
  "process_row no_repr example_network ''address'' ''key'' False [(''address'', JStr ''Harvard'')] ()
     = (Inr (dict_update [(''address'', JStr ''Harvard'')]
               (main_out premise_no_usps_response ''Harvard'' ''US'' True)), ())
   \<and> process_row no_repr example_network ''address'' ''key'' True [(''address'', JStr ''Harvard'')] ()
     = (Inr (dict_update [(''address'', JStr ''Harvard'')]
               (main_out premise_no_usps_response ''Harvard'' ''US'' True)), ())
   \<and> map_of (main_out premise_no_usps_response ''Harvard'' ''US'' True) ''is_confirmed''
       = Some (JBool False)
   \<and> map_of (main_out premise_no_usps_response ''Harvard'' ''US'' False) ''is_confirmed''
       = Some (JBool True)"
  using driver_uses_defaults [OF example_row] example_row premise_no_usps_is_confirmed
  by blast

section \<open>Further properties of the classifier\<close>

text \<open>
  Every response that is a JSON object gets a result: for an object the test for the
  \<^verbatim>\<open>error\<close> key and the read of its value cannot raise, and whatever the \<^verbatim>\<open>try\<close> block
  raises is caught.
\<close>

theorem parse_total_on_objects:
  "\<exists>out. parse_validation_result str_other (JDict kvs) orig region cass = Inr out"
  by (cases "map_of kvs ''error''")
     (auto simp: parse_validation_result_def split: sum.splits)

text \<open>
  An exception raised inside the \<^verbatim>\<open>try\<close> block becomes a result: \<^verbatim>\<open>is_valid\<close> is
  \<^verbatim>\<open>False\<close>, \<^verbatim>\<open>validation_status\<close> is "Parse Error: " followed by the message of the
  exception, and \<^verbatim>\<open>validated_address\<close> is the original address.
\<close>

theorem parse_error_converted:
  assumes "py_contains ''error'' result = Inr False"
      and "try_body result orig region cass = Inl e"
  shows "parse_validation_result str_other result orig region cass =
           Inr (error_result orig (''Parse Error: '' @ exn_message e))
       \<and> returned (parse_validation_result str_other result orig region cass) ''is_valid''
           = Some (JBool False)
       \<and> returned (parse_validation_result str_other result orig region cass) ''validation_status''
           = Some (JStr (''Parse Error: '' @ exn_message e))
       \<and> returned (parse_validation_result str_other result orig region cass) ''validated_address''
           = Some (JStr orig)"
  unfolding parse_caught [OF assms]
  by (simp add: returned_def error_result_fields)

text \<open>The conversion at the response whose \<^verbatim>\<open>geocode\<close> member is \<^verbatim>\<open>null\<close>.\<close>

theorem parse_error_converted_witness:
  "py_contains ''error'' null_geocode_response = Inr False
   \<and> try_body null_geocode_response ''1 main st'' ''US'' True =
       Inl (AttributeError ''NoneType'' ''get'')
   \<and> returned (parse_validation_result no_repr null_geocode_response ''1 main st'' ''US'' True)
        ''validation_status''
       = Some (JStr (''Parse Error: '' @ quoted ''NoneType'' @ '' object has no attribute ''
                       @ quoted ''get''))"
  using parse_error_converted [OF no_error_key(4) try_body_null_geocode_response,
          of no_repr "''1 main st''" "''US''" True]
        no_error_key(4) try_body_null_geocode_response [of "''1 main st''" "''US''" True]
  by (simp add: returned_def error_result_fields)

end
